theory Spec2Isabelle
  imports Main
begin

section \<open>JavaScript values handled by the admin panel\<close>

text \<open>
  The admin panel (\<^verbatim>\<open>src/js/admin.js\<close>) works on page numbers, deck names and the raw
  contents of form fields. A JavaScript number is modelled as either \<open>NaN\<close> or an integer:
  the only numbers the panel produces come from \<^verbatim>\<open>parseInt\<close>, from \<^verbatim>\<open>viewer.pagesCount\<close>
  and from adding \<open>\<plusminus>1\<close>, and integers are taken as mathematical integers (the rounding of
  doubles beyond \<open>2^53\<close>, and a fractional page number in the remote document, are
  outside the model).
\<close>

datatype jsnum = NaN | Fin int

datatype jsval = Undefined | Null | Str string | Num jsnum

text \<open>A deck name as it may sit in a field: a string, \<^verbatim>\<open>undefined\<close> (never set, or a
  missing document field) or \<^verbatim>\<open>null\<close>.\<close>

datatype deckval = DeckUndefined | DeckNull | DeckName string

text \<open>Loose equality \<^verbatim>\<open>==\<close> on deck names: \<^verbatim>\<open>undefined\<close> and \<^verbatim>\<open>null\<close> equal each
  other and nothing else, strings are compared by content.\<close>

fun deck_loose_eq :: "deckval \<Rightarrow> deckval \<Rightarrow> bool" where
  "deck_loose_eq (DeckName a) (DeckName b) = (a = b)"
| "deck_loose_eq (DeckName a) DeckUndefined = False"
| "deck_loose_eq (DeckName a) DeckNull = False"
| "deck_loose_eq DeckUndefined (DeckName b) = False"
| "deck_loose_eq DeckNull (DeckName b) = False"
| "deck_loose_eq DeckUndefined DeckUndefined = True"
| "deck_loose_eq DeckUndefined DeckNull = True"
| "deck_loose_eq DeckNull DeckUndefined = True"
| "deck_loose_eq DeckNull DeckNull = True"

text \<open>Loose equality between the stored page number (\<open>None\<close> is \<^verbatim>\<open>undefined\<close>, the field
  before its first assignment) and a number: \<^verbatim>\<open>undefined\<close> equals no number and \<open>NaN\<close>
  equals nothing, not even itself.\<close>

fun page_loose_eq :: "jsnum option \<Rightarrow> jsnum \<Rightarrow> bool" where
  "page_loose_eq (Some (Fin a)) (Fin b) = (a = b)"
| "page_loose_eq (Some (Fin a)) NaN = False"
| "page_loose_eq (Some NaN) b = False"
| "page_loose_eq None b = False"

text \<open>\<^verbatim>\<open>Number.isInteger\<close>, \<^verbatim>\<open>Math.max\<close>, \<^verbatim>\<open>Math.min\<close> and \<^verbatim>\<open>+\<close> with a number on the
  right; \<open>NaN\<close> is contagious and \<^verbatim>\<open>undefined + n\<close> is \<open>NaN\<close>.\<close>

fun isInteger :: "jsnum \<Rightarrow> bool" where
  "isInteger (Fin n) = True"
| "isInteger NaN = False"

fun math_max :: "jsnum \<Rightarrow> jsnum \<Rightarrow> jsnum" where
  "math_max (Fin a) (Fin b) = Fin (max a b)"
| "math_max NaN b = NaN"
| "math_max (Fin a) NaN = NaN"

fun math_min :: "jsnum \<Rightarrow> jsnum \<Rightarrow> jsnum" where
  "math_min (Fin a) (Fin b) = Fin (min a b)"
| "math_min NaN b = NaN"
| "math_min (Fin a) NaN = NaN"

fun js_add :: "jsnum option \<Rightarrow> int \<Rightarrow> jsnum" where
  "js_add (Some (Fin a)) d = Fin (a + d)"
| "js_add (Some NaN) d = NaN"
| "js_add None d = NaN"

subsection \<open>\<^verbatim>\<open>parseInt\<close> without a radix\<close>

text \<open>
  \<^verbatim>\<open>parseInt\<close> skips leading white space, reads an optional sign, switches to radix 16
  after a \<^verbatim>\<open>0x\<close> or \<^verbatim>\<open>0X\<close> prefix, and reads the longest run of digits; with no digit
  the result is \<open>NaN\<close>. A number argument is first converted to a string, so an integer
  comes back as itself; \<^verbatim>\<open>undefined\<close>, \<^verbatim>\<open>null\<close> and \<open>NaN\<close> have no leading digit.

  Three limits of this model of the built-in: white space is the ASCII white space
  (JavaScript also skips U+00A0 and the other Unicode spaces); the digits are read as an
  unbounded integer (JavaScript rounds above \<open>2^53\<close> and gives \<open>Infinity\<close> for very long
  runs); and a number comes back unchanged (JavaScript prints a number from \<open>10^21\<close> on
  in exponent form and reads back its leading digits). The properties below name the
  result of \<^verbatim>\<open>parseInt\<close> in a hypothesis and hold whatever it is; the concrete runs use
  short ASCII inputs, on which model and built-in agree.
\<close>

definition is_space :: "char \<Rightarrow> bool" where
  "is_space c = (c \<in> set [CHR 0x09, CHR 0x0A, CHR 0x0B, CHR 0x0C, CHR 0x0D, CHR 0x20])"

definition digit_val :: "nat \<Rightarrow> char \<Rightarrow> nat option" where
  "digit_val radix c =
     (let n = (of_char c :: nat);
          v = (if 48 \<le> n \<and> n \<le> 57 then Some (n - 48)
               else if 97 \<le> n \<and> n \<le> 122 then Some (n - 87)
               else if 65 \<le> n \<and> n \<le> 90 then Some (n - 55)
               else None)
      in case v of None \<Rightarrow> None | Some d \<Rightarrow> if d < radix then Some d else None)"

fun parse_digits :: "nat \<Rightarrow> string \<Rightarrow> nat option \<Rightarrow> nat option" where
  "parse_digits radix [] acc = acc"
| "parse_digits radix (c # cs) acc =
     (case digit_val radix c of
        None \<Rightarrow> acc
      | Some d \<Rightarrow> parse_digits radix cs
                   (Some (radix * (case acc of None \<Rightarrow> 0 | Some a \<Rightarrow> a) + d)))"

fun strip_sign :: "string \<Rightarrow> bool \<times> string" where
  "strip_sign [] = (False, [])"
| "strip_sign (c # cs) =
     (if c = CHR ''-'' then (True, cs)
      else if c = CHR ''+'' then (False, cs)
      else (False, c # cs))"

fun strip_radix :: "string \<Rightarrow> nat \<times> string" where
  "strip_radix (a # b # cs) =
     (if a = CHR ''0'' \<and> (b = CHR ''x'' \<or> b = CHR ''X'') then (16, cs)
      else (10, a # b # cs))"
| "strip_radix cs = (10, cs)"

definition parseInt_string :: "string \<Rightarrow> jsnum" where
  "parseInt_string s =
     (let (neg, s1) = strip_sign (dropWhile is_space s);
          (radix, s2) = strip_radix s1
      in case parse_digits radix s2 None of
           None \<Rightarrow> NaN
         | Some n \<Rightarrow> Fin (if neg then - int n else int n))"

fun parseInt :: "jsval \<Rightarrow> jsnum" where
  "parseInt (Str s) = parseInt_string s"
| "parseInt (Num (Fin n)) = Fin n"
| "parseInt (Num NaN) = NaN"
| "parseInt Undefined = NaN"
| "parseInt Null = NaN"

subsection \<open>\<^verbatim>\<open>clamp\<close>\<close>

text \<open>\<^verbatim>\<open>function clamp(value, min, max) { return Math.min(Math.max(value, min), max); }\<close>\<close>

definition clamp :: "jsnum \<Rightarrow> jsnum \<Rightarrow> jsnum \<Rightarrow> jsnum" where
  "clamp v mn mx = math_min (math_max v mn) mx"

section \<open>The state of \<^verbatim>\<open>AdminApp\<close> and its collaborators\<close>

text \<open>
  The viewer, the document store and the auth provider are outside the panel. Every call
  the panel makes on them is recorded, in order, in a trace; what the panel reads from
  them (\<^verbatim>\<open>viewer.pagesCount\<close>, \<^verbatim>\<open>auth.currentUser\<close>) is a field of the state.
\<close>

datatype field_update = UpdCurrentDeck deckval | UpdCurrentPageNumber jsnum

datatype effect =
    UpdateDoc field_update          \<comment> \<open>\<^verbatim>\<open>updateDoc(this.presenterStateRef, {...})\<close>\<close>
  | ViewerSetPage jsnum             \<comment> \<open>\<^verbatim>\<open>this.viewer.currentPageNumber = ...\<close>\<close>
  | UpdateDeck deckval              \<comment> \<open>\<^verbatim>\<open>this._updateDeck(...)\<close>, the deck load\<close>
  | ConsoleError string             \<comment> \<open>\<^verbatim>\<open>console.error(...)\<close>\<close>
  | SignOut                         \<comment> \<open>\<^verbatim>\<open>signOut(this.auth)\<close>\<close>
  | LocationReplace string          \<comment> \<open>\<^verbatim>\<open>window.location.replace(...)\<close>\<close>

record admin_app =
  currentDeck :: deckval                    \<comment> \<open>\<^verbatim>\<open>this._currentDeck\<close>\<close>
  currentPageNumber :: "jsnum option"       \<comment> \<open>\<^verbatim>\<open>this._currentPageNumber\<close>, \<open>None\<close> before it is set\<close>
  deckNameInput_value :: deckval            \<comment> \<open>value last put into the deck selector\<close>
  deckNameInput_options :: "string list"    \<comment> \<open>options appended to the deck selector\<close>
  pageNumberInput_value :: jsval            \<comment> \<open>value last put into the page field\<close>
  pagesCountSpan_textContent :: "int option"
  emailField_textContent :: "string option"
  emailField_hidden :: bool
  loginButton_hidden :: bool
  logoutButton_hidden :: bool
  viewer_pagesCount :: int                  \<comment> \<open>\<^verbatim>\<open>this.viewer.pagesCount\<close>\<close>
  auth_currentUser :: "string option"       \<comment> \<open>\<^verbatim>\<open>this.auth.currentUser\<close>, by e-mail; \<open>None\<close> is null\<close>
  pendingLoads :: "deckval list"            \<comment> \<open>deck loads started and not yet settled\<close>
  trace :: "effect list"

definition emit :: "effect \<Rightarrow> admin_app \<Rightarrow> admin_app" where
  "emit e s = s\<lparr>trace := trace s @ [e]\<rparr>"

text \<open>The data of a presenter-state snapshot: \<^verbatim>\<open>doc.data()\<close>.\<close>

record presenter_data =
  data_currentDeck :: deckval
  data_currentPageNumber :: jsval

section \<open>The methods of \<^verbatim>\<open>AdminApp\<close>\<close>

text \<open>
  The setters \<^verbatim>\<open>set currentDeck(deckName)\<close> and \<^verbatim>\<open>set currentPageNumber(pageNumber)\<close>.
  The page setter ends with the assignment to \<^verbatim>\<open>this.viewer.currentPageNumber\<close>; the
  assignment is recorded with its argument and taken to return, and what the viewer
  makes of the value is the viewer's own business.
\<close>

definition set_currentDeck :: "deckval \<Rightarrow> admin_app \<Rightarrow> admin_app" where
  "set_currentDeck deckName s = s\<lparr>currentDeck := deckName, deckNameInput_value := deckName\<rparr>"

definition set_currentPageNumber :: "jsnum \<Rightarrow> admin_app \<Rightarrow> admin_app" where
  "set_currentPageNumber pageNumber s =
     emit (ViewerSetPage pageNumber)
       (s\<lparr>currentPageNumber := Some pageNumber, pageNumberInput_value := Num pageNumber\<rparr>)"

definition onAuthStateChanged :: "string option \<Rightarrow> admin_app \<Rightarrow> admin_app" where
  "onAuthStateChanged user s =
     (case user of
        Some email \<Rightarrow> s\<lparr>emailField_textContent := Some email, emailField_hidden := False,
                        loginButton_hidden := True, logoutButton_hidden := False\<rparr>
      | None \<Rightarrow> s\<lparr>emailField_hidden := True, loginButton_hidden := False,
                   logoutButton_hidden := True\<rparr>)"

text \<open>
  Modelled from the spec: \<^verbatim>\<open>_updateDeck\<close> is inherited from \<^verbatim>\<open>ViewerApp\<close> in
  \<^verbatim>\<open>index.js\<close>, which is not among the sources. The spec describes it as the viewer's
  "load deck by identifier: asynchronous; resolves when renderable or rejects with a load
  error". The call is recorded and the load is pending until the environment settles it.
\<close>

definition updateDeck :: "deckval \<Rightarrow> admin_app \<Rightarrow> admin_app" where
  "updateDeck deckName s = emit (UpdateDeck deckName) (s\<lparr>pendingLoads := pendingLoads s @ [deckName]\<rparr>)"

text \<open>The two callbacks \<^verbatim>\<open>_onSnapshot\<close> attaches to the load: \<^verbatim>\<open>.then\<close> and \<^verbatim>\<open>.catch\<close>.\<close>

definition updateDeck_then :: "deckval \<Rightarrow> admin_app \<Rightarrow> admin_app" where
  "updateDeck_then remoteDeck s =
     (let s1 = set_currentDeck remoteDeck s
      in s1\<lparr>pagesCountSpan_textContent := Some (viewer_pagesCount s1)\<rparr>)"

definition updateDeck_catch :: "admin_app \<Rightarrow> admin_app" where
  "updateDeck_catch s = emit (ConsoleError ''Error loading document: '') s"

text \<open>\<^verbatim>\<open>_onSnapshot(doc)\<close>. A snapshot of a document that does not exist has no data
  (\<open>None\<close>): reading a field of it throws before anything is done. Both callbacks of the
  load run later, so the page number is compared and set before the load settles.\<close>

definition onSnapshot :: "presenter_data option \<Rightarrow> admin_app \<Rightarrow> admin_app" where
  "onSnapshot doc s =
     (case doc of
        None \<Rightarrow> s
      | Some data \<Rightarrow>
          (let remoteDeck = data_currentDeck data;
               remotePage = parseInt (data_currentPageNumber data);
               s1 = (if \<not> deck_loose_eq (currentDeck s) remoteDeck
                     then updateDeck remoteDeck s else s)
           in if \<not> page_loose_eq (currentPageNumber s1) remotePage
              then set_currentPageNumber remotePage s1 else s1))"

text \<open>\<^verbatim>\<open>_onDeckNameInputChange(event)\<close>, on \<^verbatim>\<open>event.target.value\<close>; \<^verbatim>\<open>deckName != null\<close>
  is false for \<^verbatim>\<open>null\<close> and for \<^verbatim>\<open>undefined\<close>.\<close>

definition onDeckNameInputChange :: "deckval \<Rightarrow> admin_app \<Rightarrow> admin_app" where
  "onDeckNameInputChange deckName s =
     (if \<not> deck_loose_eq deckName DeckNull \<and> \<not> deck_loose_eq deckName (currentDeck s) then
        (let s1 = set_currentDeck deckName s
         in if auth_currentUser s1 \<noteq> None
            then emit (UpdateDoc (UpdCurrentDeck deckName)) s1 else s1)
      else s)"

text \<open>\<^verbatim>\<open>_onPageNumberInputChange(event)\<close>, on the string \<^verbatim>\<open>event.target.value\<close>.\<close>

definition onPageNumberInputChange :: "string \<Rightarrow> admin_app \<Rightarrow> admin_app" where
  "onPageNumberInputChange raw s =
     (let pageNumber = parseInt (Str raw)
      in if isInteger pageNumber \<and> \<not> page_loose_eq (currentPageNumber s) pageNumber then
           (let s1 = set_currentPageNumber pageNumber s
            in if auth_currentUser s1 \<noteq> None
               then emit (UpdateDoc (UpdCurrentPageNumber pageNumber)) s1 else s1)
         else s)"

text \<open>\<^verbatim>\<open>_onPageChangeButton(delta, event)\<close>. The handler is bound to clicks and key presses,
  which are no \<^verbatim>\<open>InputEvent\<close>s, and \<^verbatim>\<open>preventDefault\<close> touches nothing of the state.\<close>

definition onPageChangeButton :: "int \<Rightarrow> admin_app \<Rightarrow> admin_app" where
  "onPageChangeButton delta s =
     (let pageNumber = clamp (js_add (currentPageNumber s) delta) (Fin 1) (Fin (viewer_pagesCount s))
      in if isInteger pageNumber \<and> \<not> page_loose_eq (currentPageNumber s) pageNumber then
           (let s1 = set_currentPageNumber pageNumber s
            in if auth_currentUser s1 \<noteq> None
               then emit (UpdateDoc (UpdCurrentPageNumber pageNumber)) s1 else s1)
         else s)"

definition onLoginButton :: "admin_app \<Rightarrow> admin_app" where
  "onLoginButton s = emit (LocationReplace ''/login.html'') s"

definition onLogoutButton :: "admin_app \<Rightarrow> admin_app" where
  "onLogoutButton s = emit SignOut s"

text \<open>The key listener of the constructor.\<close>

definition onKeyDown :: "string \<Rightarrow> admin_app \<Rightarrow> admin_app" where
  "onKeyDown key s =
     (if key = ''ArrowLeft'' then onPageChangeButton (- 1) s
      else if key = ''ArrowRight'' then onPageChangeButton 1 s
      else s)"

text \<open>The \<^verbatim>\<open>pagesinit\<close> listener and the callback that fills the deck selector.\<close>

definition onPagesInit :: "admin_app \<Rightarrow> admin_app" where
  "onPagesInit s = s\<lparr>pagesCountSpan_textContent := Some (viewer_pagesCount s)\<rparr>"

definition onDecksListed :: "string list \<Rightarrow> admin_app \<Rightarrow> admin_app" where
  "onDecksListed ids s = s\<lparr>deckNameInput_options := deckNameInput_options s @ ids\<rparr>"

section \<open>Events\<close>

text \<open>
  Everything that can make the panel run: the user's input, the notifications of the
  document store, the auth provider and the viewer, and the settling of the promises the
  panel started. The environment's share of an event (the user has put a value into a
  control, the viewer has counted its pages, the provider has changed its current user)
  is applied before the handler runs.
\<close>

datatype event =
    Snapshot "presenter_data option"
  | DeckNameInputChange deckval
  | PageNumberInputChange string
  | PrevPageClick
  | NextPageClick
  | KeyDown string
  | LoginClick
  | LogoutClick
  | AuthStateChanged "string option"
  | PagesInit int
  | DecksListed "string list"
  | LoadResolved deckval
  | LoadRejected deckval
  | UpdateDocRejected field_update
  | SignOutRejected

fun step :: "event \<Rightarrow> admin_app \<Rightarrow> admin_app" where
  "step (Snapshot doc) s = onSnapshot doc s"
| "step (DeckNameInputChange v) s = onDeckNameInputChange v (s\<lparr>deckNameInput_value := v\<rparr>)"
| "step (PageNumberInputChange raw) s =
     onPageNumberInputChange raw (s\<lparr>pageNumberInput_value := Str raw\<rparr>)"
| "step PrevPageClick s = onPageChangeButton (- 1) s"
| "step NextPageClick s = onPageChangeButton 1 s"
| "step (KeyDown key) s = onKeyDown key s"
| "step LoginClick s = onLoginButton s"
| "step LogoutClick s = onLogoutButton s"
| "step (AuthStateChanged user) s = onAuthStateChanged user (s\<lparr>auth_currentUser := user\<rparr>)"
| "step (PagesInit n) s = onPagesInit (s\<lparr>viewer_pagesCount := n\<rparr>)"
| "step (DecksListed ids) s = onDecksListed ids s"
| "step (LoadResolved d) s =
     (if d \<in> set (pendingLoads s)
      then updateDeck_then d (s\<lparr>pendingLoads := remove1 d (pendingLoads s)\<rparr>) else s)"
| "step (LoadRejected d) s =
     (if d \<in> set (pendingLoads s)
      then updateDeck_catch (s\<lparr>pendingLoads := remove1 d (pendingLoads s)\<rparr>) else s)"
| "step (UpdateDocRejected (UpdCurrentDeck d)) s = emit (ConsoleError ''Error updating deck name: '') s"
| "step (UpdateDocRejected (UpdCurrentPageNumber n)) s =
     emit (ConsoleError ''Error updating page number: '') s"
| "step SignOutRejected s = emit (ConsoleError ''Error signing out: '') s"

text \<open>The events that come from the operator's input on the deck selector, the page
  field, the two buttons and the two arrow keys.\<close>

fun user_input :: "event \<Rightarrow> bool" where
  "user_input (DeckNameInputChange v) = True"
| "user_input (PageNumberInputChange raw) = True"
| "user_input PrevPageClick = True"
| "user_input NextPageClick = True"
| "user_input (KeyDown key) = (key = ''ArrowLeft'' \<or> key = ''ArrowRight'')"
| "user_input ev = False"

section \<open>Reading the trace\<close>

fun remote_writes_of :: "effect list \<Rightarrow> field_update list" where
  "remote_writes_of [] = []"
| "remote_writes_of (UpdateDoc u # es) = u # remote_writes_of es"
| "remote_writes_of (e # es) = remote_writes_of es"

fun set_pages_of :: "effect list \<Rightarrow> jsnum list" where
  "set_pages_of [] = []"
| "set_pages_of (ViewerSetPage n # es) = n # set_pages_of es"
| "set_pages_of (e # es) = set_pages_of es"

fun deck_loads_of :: "effect list \<Rightarrow> deckval list" where
  "deck_loads_of [] = []"
| "deck_loads_of (UpdateDeck d # es) = d # deck_loads_of es"
| "deck_loads_of (e # es) = deck_loads_of es"

definition remote_writes :: "admin_app \<Rightarrow> field_update list" where
  "remote_writes s = remote_writes_of (trace s)"

definition viewer_set_pages :: "admin_app \<Rightarrow> jsnum list" where
  "viewer_set_pages s = set_pages_of (trace s)"

definition deck_loads :: "admin_app \<Rightarrow> deckval list" where
  "deck_loads s = deck_loads_of (trace s)"

text \<open>A state to run the handlers on: deck \<open>A\<close> of ten pages is loaded and shown at page 3,
  nobody is signed in.\<close>

definition demo_state :: admin_app where
  "demo_state =
     \<lparr>currentDeck = DeckName ''A'', currentPageNumber = Some (Fin 3),
      deckNameInput_value = DeckName ''A'', deckNameInput_options = [''A'', ''B''],
      pageNumberInput_value = Num (Fin 3), pagesCountSpan_textContent = Some 10,
      emailField_textContent = None, emailField_hidden = True,
      loginButton_hidden = False, logoutButton_hidden = True,
      viewer_pagesCount = 10, auth_currentUser = None, pendingLoads = [], trace = []\<rparr>"

definition demo_signed_in :: admin_app where
  "demo_signed_in = demo_state\<lparr>auth_currentUser := Some ''op@example.org''\<rparr>"

section \<open>Notions the properties are stated with\<close>


text \<open>A run of notifications, each with data, handled in the order of delivery.\<close>

fun onSnapshots :: "presenter_data list \<Rightarrow> admin_app \<Rightarrow> admin_app" where
  "onSnapshots [] s = s"
| "onSnapshots (d # ds) s = onSnapshots ds (onSnapshot (Some d) s)"

text \<open>
  The pages a run of notifications on one deck sets, stated on its own: a notified page
  that repeats the page current at that moment causes no update; any other is set once
  and is the current page from then on. The result lists the pages set, in order.
\<close>

fun page_updates :: "jsnum option \<Rightarrow> jsnum list \<Rightarrow> jsnum list" where
  "page_updates cur [] = []"
| "page_updates cur (p # ps) =
     (if page_loose_eq cur p then page_updates cur ps else p # page_updates (Some p) ps)"

text \<open>Snapshot data for deck \<open>deck\<close> with the given page field.\<close>

definition demo_data :: "string \<Rightarrow> jsval \<Rightarrow> presenter_data" where
  "demo_data deck page = \<lparr>data_currentDeck = DeckName deck, data_currentPageNumber = page\<rparr>"

section \<open>Auxiliary facts\<close>

lemmas parse_simps = parseInt_string_def digit_val_def is_space_def

lemmas handler_defs = onSnapshot_def onDeckNameInputChange_def onPageNumberInputChange_def
  onPageChangeButton_def onKeyDown_def set_currentDeck_def set_currentPageNumber_def
  updateDeck_def updateDeck_then_def updateDeck_catch_def emit_def Let_def

lemmas reader_defs = remote_writes_def viewer_set_pages_def deck_loads_def

lemma remote_writes_of_append [simp]:
  "remote_writes_of (xs @ ys) = remote_writes_of xs @ remote_writes_of ys"
  by (induction xs rule: remote_writes_of.induct) simp_all

lemma set_pages_of_append [simp]:
  "set_pages_of (xs @ ys) = set_pages_of xs @ set_pages_of ys"
  by (induction xs rule: set_pages_of.induct) simp_all

lemma deck_loads_of_append [simp]:
  "deck_loads_of (xs @ ys) = deck_loads_of xs @ deck_loads_of ys"
  by (induction xs rule: deck_loads_of.induct) simp_all

lemma trace_set_currentPageNumber:
  "trace (set_currentPageNumber n s) = trace s @ [ViewerSetPage n]"
  by (simp add: set_currentPageNumber_def emit_def)

lemma trace_updateDeck: "trace (updateDeck d s) = trace s @ [UpdateDeck d]"
  by (simp add: updateDeck_def emit_def)

lemma trace_onSnapshot:
  "trace (onSnapshot (Some d) s) =
     trace s
     @ (if deck_loose_eq (currentDeck s) (data_currentDeck d) then [] else [UpdateDeck (data_currentDeck d)])
     @ (if page_loose_eq (currentPageNumber s) (parseInt (data_currentPageNumber d)) then []
        else [ViewerSetPage (parseInt (data_currentPageNumber d))])"
  by (simp add: onSnapshot_def Let_def trace_set_currentPageNumber trace_updateDeck updateDeck_def emit_def)

lemma remote_writes_onSnapshot: "remote_writes (onSnapshot doc s) = remote_writes s"
  by (cases doc) (simp_all add: remote_writes_def trace_onSnapshot, simp add: onSnapshot_def)

lemma remote_writes_step:
  "\<not> user_input ev \<Longrightarrow> remote_writes (step ev s) = remote_writes s"
proof (cases ev)
  case (Snapshot x)
  then show ?thesis by (simp add: remote_writes_onSnapshot)
next
  case (UpdateDocRejected u)
  then show ?thesis by (cases u) (simp_all add: remote_writes_def emit_def)
next
  case (KeyDown k)
  assume "\<not> user_input ev"
  with KeyDown show ?thesis by (simp add: onKeyDown_def)
qed (simp_all add: remote_writes_def emit_def onLoginButton_def onLogoutButton_def
      onAuthStateChanged_def onPagesInit_def onDecksListed_def updateDeck_then_def
      updateDeck_catch_def set_currentDeck_def Let_def split: option.splits)


lemma onSnapshot_same_deck:
  "deck_loose_eq (currentDeck s) (data_currentDeck d) \<Longrightarrow>
   onSnapshot (Some d) s =
     (if page_loose_eq (currentPageNumber s) (parseInt (data_currentPageNumber d)) then s
      else s\<lparr>currentPageNumber := Some (parseInt (data_currentPageNumber d)),
             pageNumberInput_value := Num (parseInt (data_currentPageNumber d)),
             trace := trace s @ [ViewerSetPage (parseInt (data_currentPageNumber d))]\<rparr>)"
  by (simp add: onSnapshot_def set_currentPageNumber_def emit_def Let_def)

lemma onSnapshots_same_deck:
  "\<forall>d \<in> set ds. deck_loose_eq (currentDeck s) (data_currentDeck d) \<Longrightarrow>
   onSnapshots ds s =
     (let us = page_updates (currentPageNumber s) (map (parseInt \<circ> data_currentPageNumber) ds)
      in s\<lparr>currentPageNumber := (if us = [] then currentPageNumber s else Some (last us)),
            pageNumberInput_value := (if us = [] then pageNumberInput_value s else Num (last us)),
            trace := trace s @ map ViewerSetPage us\<rparr>)"
proof (induction ds arbitrary: s)
  case Nil
  show ?case by simp
next
  case (Cons d ds)
  let ?p = "parseInt (data_currentPageNumber d)"
  have same: "deck_loose_eq (currentDeck s) (data_currentDeck d)"
    using Cons.prems by simp
  show ?case
  proof (cases "page_loose_eq (currentPageNumber s) ?p")
    case True
    then have "onSnapshot (Some d) s = s"
      using same by (simp add: onSnapshot_same_deck)
    moreover have "\<forall>d \<in> set ds. deck_loose_eq (currentDeck s) (data_currentDeck d)"
      using Cons.prems by simp
    ultimately show ?thesis
      using Cons.IH [of s] True by simp
  next
    case False
    define s1 where "s1 = s\<lparr>currentPageNumber := Some ?p, pageNumberInput_value := Num ?p,
      trace := trace s @ [ViewerSetPage ?p]\<rparr>"
    have step1: "onSnapshot (Some d) s = s1"
      using same False by (simp add: onSnapshot_same_deck s1_def)
    have "\<forall>d \<in> set ds. deck_loose_eq (currentDeck s1) (data_currentDeck d)"
      using Cons.prems by (simp add: s1_def)
    from Cons.IH [OF this] show ?thesis
      using False step1 by (simp add: s1_def Let_def)
  qed
qed

lemma remdups_adj_head: "remdups_adj (x # xs) = x # tl (remdups_adj (x # xs))"
  by (cases "remdups_adj (x # xs)") (simp_all add: remdups_adj_Cons split: list.splits if_splits)

lemma map_remdups_adj_head:
  "map f (remdups_adj (x # xs)) = f x # map f (tl (remdups_adj (x # xs)))"
proof -
  have "remdups_adj (x # xs) = x # tl (remdups_adj (x # xs))"
    by (rule remdups_adj_head)
  then have "map f (remdups_adj (x # xs)) = map f (x # tl (remdups_adj (x # xs)))"
    by (rule arg_cong)
  then show ?thesis by (simp only: list.map)
qed

lemma page_updates_from_integer:
  "page_updates (Some (Fin c)) (map Fin ns) = map Fin (tl (remdups_adj (c # ns)))"
proof (induction ns arbitrary: c)
  case Nil
  show ?case by simp
next
  case (Cons n ns)
  show ?case
  proof (cases "c = n")
    case True
    then show ?thesis using Cons.IH [of n] by simp
  next
    case False
    have "map Fin (remdups_adj (n # ns)) = Fin n # map Fin (tl (remdups_adj (n # ns)))"
      by (rule map_remdups_adj_head)
    with False show ?thesis
      using Cons.IH [of n] by simp
  qed
qed

lemma page_updates_from_no_integer:
  "cur = None \<or> cur = Some NaN \<Longrightarrow> page_updates cur (map Fin ns) = map Fin (remdups_adj ns)"
proof (cases ns)
  case Nil
  then show ?thesis by simp
next
  case (Cons n ms)
  assume "cur = None \<or> cur = Some NaN"
  then have "\<not> page_loose_eq cur (Fin n)" by auto
  moreover have "map Fin (remdups_adj (n # ms)) = Fin n # map Fin (tl (remdups_adj (n # ms)))"
      by (rule map_remdups_adj_head)
  ultimately show ?thesis
    using Cons page_updates_from_integer [of n ms] by simp
qed

lemma page_updates_NaN: "page_updates cur (replicate k NaN) = replicate k NaN"
proof (induction k arbitrary: cur)
  case 0
  show ?case by simp
next
  case (Suc k)
  have "\<not> page_loose_eq cur NaN"
    by (cases "(cur, NaN)" rule: page_loose_eq.cases) simp_all
  then show ?case using Suc.IH [of "Some NaN"] by simp
qed

lemma deck_loads_onSnapshot:
  "deck_loads (onSnapshot (Some d) s) =
     deck_loads s @ (if deck_loose_eq (currentDeck s) (data_currentDeck d) then []
                     else [data_currentDeck d])"
  by (simp add: deck_loads_def trace_onSnapshot)

lemma deck_loads_handlers:
  "deck_loads (onDeckNameInputChange v s) = deck_loads s"
  "deck_loads (onPageNumberInputChange raw s) = deck_loads s"
  "deck_loads (onPageChangeButton delta s) = deck_loads s"
  "deck_loads (onKeyDown k s) = deck_loads s"
  by (simp_all add: handler_defs reader_defs)

lemma deck_loads_step:
  "deck_loads (step ev s) \<noteq> deck_loads s \<Longrightarrow>
   \<exists>d. ev = Snapshot (Some d) \<and> \<not> deck_loose_eq (currentDeck s) (data_currentDeck d)"
proof (cases ev)
  case (Snapshot doc)
  assume changed: "deck_loads (step ev s) \<noteq> deck_loads s"
  show ?thesis
  proof (cases doc)
    case None
    with Snapshot changed show ?thesis by (simp add: onSnapshot_def)
  next
    case (Some d)
    with Snapshot changed show ?thesis
      by (simp add: deck_loads_onSnapshot split: if_splits)
  qed
next
  case (UpdateDocRejected u)
  assume "deck_loads (step ev s) \<noteq> deck_loads s"
  with UpdateDocRejected show ?thesis by (cases u) (simp_all add: deck_loads_def emit_def)
qed (simp_all add: deck_loads_handlers, simp_all add: deck_loads_def emit_def
      updateDeck_then_def updateDeck_catch_def set_currentDeck_def onLoginButton_def
      onLogoutButton_def onAuthStateChanged_def onPagesInit_def onDecksListed_def Let_def
      split: option.splits if_splits)

section \<open>\<^verbatim>\<open>clamp\<close>\<close>

text \<open>
  C7. For all integers \<open>v\<close>, \<open>mn\<close>, \<open>mx\<close> with \<open>mn \<le> mx\<close>, \<open>clamp v mn mx\<close> is \<open>v\<close> when
  \<open>mn \<le> v \<le> mx\<close>, \<open>mn\<close> when \<open>v < mn\<close>, and \<open>mx\<close> when \<open>v > mx\<close>.
\<close>

theorem clamp_cases:
  assumes "mn \<le> mx"
  shows "(mn \<le> v \<and> v \<le> mx \<longrightarrow> clamp (Fin v) (Fin mn) (Fin mx) = Fin v)
       \<and> (v < mn \<longrightarrow> clamp (Fin v) (Fin mn) (Fin mx) = Fin mn)
       \<and> (v > mx \<longrightarrow> clamp (Fin v) (Fin mn) (Fin mx) = Fin mx)"
  using assms by (auto simp: clamp_def)

theorem clamp_cases_witness:
  "(1::int) \<le> 10
   \<and> clamp (Fin 4) (Fin 1) (Fin 10) = Fin 4
   \<and> clamp (Fin 0) (Fin 1) (Fin 10) = Fin 1
   \<and> clamp (Fin 11) (Fin 1) (Fin 10) = Fin 10"
  using clamp_cases [of 1 10 4] clamp_cases [of 1 10 0] clamp_cases [of 1 10 11]
  by simp

section \<open>Remote notifications and remote writes\<close>

text \<open>
  C1. Handling a remote change notification never issues a remote write to the
  presenter-state document, whatever happens to the local deck and page number, and
  neither do the callbacks of the deck load it may start. Of all events, only those
  driven by user input (deck selector, page field, prev/next buttons, arrow keys) can
  change the list of remote writes.
\<close>

theorem snapshot_never_writes:
  "remote_writes (onSnapshot doc s) = remote_writes s
   \<and> remote_writes (step (LoadResolved d) s) = remote_writes s
   \<and> remote_writes (step (LoadRejected d) s) = remote_writes s
   \<and> (\<forall>ev. remote_writes (step ev s) \<noteq> remote_writes s \<longrightarrow> user_input ev)"
proof -
  have "remote_writes (step (LoadResolved d) s) = remote_writes s"
    by (rule remote_writes_step) simp
  moreover have "remote_writes (step (LoadRejected d) s) = remote_writes s"
    by (rule remote_writes_step) simp
  moreover have "\<forall>ev. remote_writes (step ev s) \<noteq> remote_writes s \<longrightarrow> user_input ev"
    using remote_writes_step [of _ s] by blast
  ultimately show ?thesis
    by (simp add: remote_writes_onSnapshot)
qed

theorem snapshot_never_writes_witness:
  "remote_writes (onSnapshot (Some (demo_data ''A'' (Num (Fin 5)))) demo_signed_in) = []
   \<and> currentPageNumber (onSnapshot (Some (demo_data ''A'' (Num (Fin 5)))) demo_signed_in) = Some (Fin 5)
   \<and> deck_loads (onSnapshot (Some (demo_data ''A'' (Num (Fin 5)))) demo_signed_in) = []
   \<and> remote_writes (step NextPageClick demo_signed_in) = [UpdCurrentPageNumber (Fin 4)]
   \<and> user_input NextPageClick"
  using snapshot_never_writes [of "Some (demo_data ''A'' (Num (Fin 5)))" demo_signed_in]
  by (simp add: handler_defs reader_defs demo_data_def demo_signed_in_def demo_state_def clamp_def)

text \<open>
  C2. A user-input change whose new value differs from the current local value (a deck
  name from the selector, an integer parsed from the page field, the integer that
  prev/next or an arrow key clamps to) is applied locally, and the remote write of the
  changed field is issued exactly when \<^verbatim>\<open>auth.currentUser\<close> is not null: the writes
  grow by that one write when signed in and stay as they were otherwise.
\<close>

theorem user_change_written_iff_authenticated:
  "(\<not> deck_loose_eq (DeckName n) (currentDeck s) \<longrightarrow>
      currentDeck (onDeckNameInputChange (DeckName n) s) = DeckName n
      \<and> remote_writes (onDeckNameInputChange (DeckName n) s) =
          remote_writes s @ (if auth_currentUser s \<noteq> None then [UpdCurrentDeck (DeckName n)] else []))
   \<and> (parseInt (Str raw) = Fin p \<and> \<not> page_loose_eq (currentPageNumber s) (Fin p) \<longrightarrow>
      currentPageNumber (onPageNumberInputChange raw s) = Some (Fin p)
      \<and> remote_writes (onPageNumberInputChange raw s) =
          remote_writes s @ (if auth_currentUser s \<noteq> None then [UpdCurrentPageNumber (Fin p)] else []))
   \<and> (clamp (js_add (currentPageNumber s) delta) (Fin 1) (Fin (viewer_pagesCount s)) = Fin q
        \<and> \<not> page_loose_eq (currentPageNumber s) (Fin q) \<longrightarrow>
      currentPageNumber (onPageChangeButton delta s) = Some (Fin q)
      \<and> remote_writes (onPageChangeButton delta s) =
          remote_writes s @ (if auth_currentUser s \<noteq> None then [UpdCurrentPageNumber (Fin q)] else []))
   \<and> onKeyDown ''ArrowLeft'' s = onPageChangeButton (- 1) s
   \<and> onKeyDown ''ArrowRight'' s = onPageChangeButton 1 s"
  by (simp add: handler_defs reader_defs)


text \<open>A change from each input, signed in and signed out.\<close>

theorem user_change_written_iff_authenticated_witness:
  "remote_writes (onDeckNameInputChange (DeckName ''B'') demo_signed_in) = [UpdCurrentDeck (DeckName ''B'')]
   \<and> remote_writes (onDeckNameInputChange (DeckName ''B'') demo_state) = []
   \<and> currentDeck (onDeckNameInputChange (DeckName ''B'') demo_state) = DeckName ''B''
   \<and> remote_writes (onPageNumberInputChange ''7'' demo_signed_in) = [UpdCurrentPageNumber (Fin 7)]
   \<and> remote_writes (onPageNumberInputChange ''7'' demo_state) = []
   \<and> currentPageNumber (onPageNumberInputChange ''7'' demo_state) = Some (Fin 7)
   \<and> remote_writes (onPageChangeButton (- 1) demo_signed_in) = [UpdCurrentPageNumber (Fin 2)]
   \<and> remote_writes (onPageChangeButton (- 1) demo_state) = []
   \<and> currentPageNumber (onKeyDown ''ArrowLeft'' demo_state) = Some (Fin 2)"
  using user_change_written_iff_authenticated [of "''B''" demo_signed_in "''7''" 7 "- 1" 2]
    user_change_written_iff_authenticated [of "''B''" demo_state "''7''" 7 "- 1" 2]
  by (simp add: demo_signed_in_def demo_state_def handler_defs reader_defs parse_simps clamp_def)

section \<open>The range of the page number\<close>




text \<open>
  C4. A page-field input that parses to an integer other than the current page is
  applied as it is, in range or not: it becomes the local page number, goes to the page
  field and the viewer, and is written remotely when signed in. Prev/next from an
  integer page \<open>c\<close> always ends at \<open>min (max (c + delta) 1) pagesCount\<close>, with the page
  field, the viewer and the remote write following when that differs from \<open>c\<close>: on a
  deck with at least one page that is 1 below the range, \<open>pagesCount\<close> above it, and
  \<open>c + delta\<close> inside.
\<close>

theorem direct_input_unclamped_navigation_clamped:
  "(parseInt (Str raw) = Fin n \<and> \<not> page_loose_eq (currentPageNumber s) (Fin n) \<longrightarrow>
      currentPageNumber (onPageNumberInputChange raw s) = Some (Fin n)
      \<and> pageNumberInput_value (onPageNumberInputChange raw s) = Num (Fin n)
      \<and> trace (onPageNumberInputChange raw s) =
          trace s @ ViewerSetPage (Fin n)
            # (if auth_currentUser s \<noteq> None then [UpdateDoc (UpdCurrentPageNumber (Fin n))] else []))
   \<and> (currentPageNumber s = Some (Fin c) \<longrightarrow>
      currentPageNumber (onPageChangeButton delta s)
        = Some (Fin (min (max (c + delta) 1) (viewer_pagesCount s)))
      \<and> pageNumberInput_value (onPageChangeButton delta s) =
          (if min (max (c + delta) 1) (viewer_pagesCount s) = c then pageNumberInput_value s
           else Num (Fin (min (max (c + delta) 1) (viewer_pagesCount s))))
      \<and> trace (onPageChangeButton delta s) =
          trace s @
            (if min (max (c + delta) 1) (viewer_pagesCount s) = c then []
             else ViewerSetPage (Fin (min (max (c + delta) 1) (viewer_pagesCount s)))
               # (if auth_currentUser s \<noteq> None
                  then [UpdateDoc (UpdCurrentPageNumber (Fin (min (max (c + delta) 1) (viewer_pagesCount s))))]
                  else [])))
   \<and> (currentPageNumber s = Some (Fin c) \<and> 1 \<le> viewer_pagesCount s \<longrightarrow>
      (c + delta < 1 \<longrightarrow> currentPageNumber (onPageChangeButton delta s) = Some (Fin 1))
      \<and> (viewer_pagesCount s < c + delta \<longrightarrow>
           currentPageNumber (onPageChangeButton delta s) = Some (Fin (viewer_pagesCount s)))
      \<and> (1 \<le> c + delta \<and> c + delta \<le> viewer_pagesCount s \<longrightarrow>
           currentPageNumber (onPageChangeButton delta s) = Some (Fin (c + delta))))"
  by (auto simp: handler_defs clamp_def)

theorem direct_input_unclamped_navigation_clamped_witness:
  "parseInt (Str ''99'') = Fin 99
   \<and> parseInt (Str ''-4'') = Fin (- 4)
   \<and> viewer_pagesCount demo_signed_in = 10
   \<and> currentPageNumber (onPageNumberInputChange ''99'' demo_signed_in) = Some (Fin 99)
   \<and> trace (onPageNumberInputChange ''99'' demo_signed_in)
       = [ViewerSetPage (Fin 99), UpdateDoc (UpdCurrentPageNumber (Fin 99))]
   \<and> currentPageNumber (onPageNumberInputChange ''-4'' demo_signed_in) = Some (Fin (- 4))
   \<and> currentPageNumber (onPageChangeButton 1 (onPageNumberInputChange ''99'' demo_signed_in)) = Some (Fin 10)
   \<and> currentPageNumber (onPageChangeButton (- 1) (onPageNumberInputChange ''-4'' demo_signed_in)) = Some (Fin 1)
   \<and> currentPageNumber (onPageChangeButton (- 1) (demo_signed_in\<lparr>currentPageNumber := Some (Fin 1)\<rparr>)) = Some (Fin 1)
   \<and> trace (onPageChangeButton (- 1) (demo_signed_in\<lparr>currentPageNumber := Some (Fin 1)\<rparr>)) = []
   \<and> currentPageNumber (onPageChangeButton 1 (demo_signed_in\<lparr>currentPageNumber := Some (Fin 10)\<rparr>)) = Some (Fin 10)
   \<and> currentPageNumber (onPageChangeButton 1 demo_signed_in) = Some (Fin 4)
   \<and> trace (onPageChangeButton 1 demo_signed_in)
       = [ViewerSetPage (Fin 4), UpdateDoc (UpdCurrentPageNumber (Fin 4))]"
  using direct_input_unclamped_navigation_clamped [of "''99''" 99 demo_signed_in 3 1]
    direct_input_unclamped_navigation_clamped [of "''-4''" "- 4" demo_signed_in 3 1]
    direct_input_unclamped_navigation_clamped [of "''99''" 99 "onPageNumberInputChange ''99'' demo_signed_in" 99 1]
    direct_input_unclamped_navigation_clamped [of "''99''" 99 "onPageNumberInputChange ''-4'' demo_signed_in" "- 4" "- 1"]
    direct_input_unclamped_navigation_clamped [of "''99''" 99 "demo_signed_in\<lparr>currentPageNumber := Some (Fin 1)\<rparr>" 1 "- 1"]
    direct_input_unclamped_navigation_clamped [of "''99''" 99 "demo_signed_in\<lparr>currentPageNumber := Some (Fin 10)\<rparr>" 10 1]
  by (simp add: demo_signed_in_def demo_state_def handler_defs parse_simps clamp_def)

section \<open>Notifications on the current deck\<close>

text \<open>
  C5, as stated, fails: the viewer's page is not set once per distinct notified value.
  From page 3 the notifications 5, 7, 5 on the current deck set page 5 twice.
\<close>

theorem recurring_page_set_again_counterexample:
  "deck_loose_eq (currentDeck demo_state) (DeckName ''A'')
   \<and> viewer_set_pages
       (onSnapshots [demo_data ''A'' (Num (Fin 5)), demo_data ''A'' (Num (Fin 7)),
                     demo_data ''A'' (Num (Fin 5))] demo_state) = [Fin 5, Fin 7, Fin 5]
   \<and> remdups [Fin 5, Fin 7, Fin 5] = [Fin 7, Fin 5]
   \<and> count_list
       (viewer_set_pages
         (onSnapshots [demo_data ''A'' (Num (Fin 5)), demo_data ''A'' (Num (Fin 7)),
                       demo_data ''A'' (Num (Fin 5))] demo_state)) (Fin 5) = 2"
  by (simp add: demo_state_def demo_data_def handler_defs reader_defs)

text \<open>
  C5, amended. A run of notifications whose deck equals the local deck starts no deck
  load and changes nothing but the page number, the page field and the trace. The
  viewer's page is set once for every notification whose page differs from the local
  page at the moment it is handled, and not at all for one that repeats it. So the calls
  follow the changes of page, not the distinct values: on integer pages they are the
  notified pages with adjacent repetitions (the starting page included) removed, and a
  value that comes back after another one is set again. A page that does not parse
  differs from every page and is set at every notification.
\<close>

theorem same_deck_notifications_follow_page_changes:
  assumes "\<forall>d \<in> set ds. deck_loose_eq (currentDeck s) (data_currentDeck d)"
  shows "deck_loads (onSnapshots ds s) = deck_loads s
    \<and> onSnapshots ds s =
        s\<lparr>currentPageNumber := currentPageNumber (onSnapshots ds s),
          pageNumberInput_value := pageNumberInput_value (onSnapshots ds s),
          trace := trace (onSnapshots ds s)\<rparr>
    \<and> trace (onSnapshots ds s) =
        trace s @ map ViewerSetPage
          (page_updates (currentPageNumber s) (map (parseInt \<circ> data_currentPageNumber) ds))
    \<and> (currentPageNumber s = Some (Fin c)
          \<and> map (parseInt \<circ> data_currentPageNumber) ds = map Fin ns \<longrightarrow>
        trace (onSnapshots ds s) =
          trace s @ map (ViewerSetPage \<circ> Fin) (tl (remdups_adj (c # ns))))
    \<and> ((currentPageNumber s = None \<or> currentPageNumber s = Some NaN)
          \<and> map (parseInt \<circ> data_currentPageNumber) ds = map Fin ns \<longrightarrow>
        trace (onSnapshots ds s) = trace s @ map (ViewerSetPage \<circ> Fin) (remdups_adj ns))
    \<and> (map (parseInt \<circ> data_currentPageNumber) ds = replicate (length ds) NaN \<longrightarrow>
        trace (onSnapshots ds s) = trace s @ replicate (length ds) (ViewerSetPage NaN))"
proof -
  note eq = onSnapshots_same_deck [OF assms]
  have tr: "trace (onSnapshots ds s) =
        trace s @ map ViewerSetPage
          (page_updates (currentPageNumber s) (map (parseInt \<circ> data_currentPageNumber) ds))"
    by (subst eq) (simp add: Let_def)
  have loads: "deck_loads_of (map ViewerSetPage us) = []" for us
    by (induction us) simp_all
  have c1: "deck_loads (onSnapshots ds s) = deck_loads s"
    by (simp add: deck_loads_def tr loads)
  have c2: "onSnapshots ds s =
        s\<lparr>currentPageNumber := currentPageNumber (onSnapshots ds s),
          pageNumberInput_value := pageNumberInput_value (onSnapshots ds s),
          trace := trace (onSnapshots ds s)\<rparr>"
  proof -
    obtain a b c where "onSnapshots ds s =
        s\<lparr>currentPageNumber := a, pageNumberInput_value := b, trace := c\<rparr>"
      using eq by (simp add: Let_def)
    then show ?thesis by simp
  qed
  have c4: "currentPageNumber s = Some (Fin c)
          \<and> map (parseInt \<circ> data_currentPageNumber) ds = map Fin ns \<longrightarrow>
        trace (onSnapshots ds s) =
          trace s @ map (ViewerSetPage \<circ> Fin) (tl (remdups_adj (c # ns)))"
    by (simp add: tr page_updates_from_integer)
  have c5: "(currentPageNumber s = None \<or> currentPageNumber s = Some NaN)
          \<and> map (parseInt \<circ> data_currentPageNumber) ds = map Fin ns \<longrightarrow>
        trace (onSnapshots ds s) = trace s @ map (ViewerSetPage \<circ> Fin) (remdups_adj ns)"
    using page_updates_from_no_integer [of "currentPageNumber s" ns] by (auto simp: tr)
  have c6: "map (parseInt \<circ> data_currentPageNumber) ds = replicate (length ds) NaN \<longrightarrow>
        trace (onSnapshots ds s) = trace s @ replicate (length ds) (ViewerSetPage NaN)"
    by (simp add: tr page_updates_NaN)
  from c1 c2 tr c4 c5 c6 show ?thesis by blast
qed

theorem same_deck_notifications_follow_page_changes_witness:
  "viewer_set_pages
     (onSnapshots [demo_data ''A'' (Num (Fin 3)), demo_data ''A'' (Num (Fin 5)),
                   demo_data ''A'' (Num (Fin 5)), demo_data ''A'' (Str ''7''),
                   demo_data ''A'' (Num (Fin 5))] demo_state)
     = [Fin 5, Fin 7, Fin 5]
   \<and> deck_loads
     (onSnapshots [demo_data ''A'' (Num (Fin 3)), demo_data ''A'' (Num (Fin 5)),
                   demo_data ''A'' (Num (Fin 5)), demo_data ''A'' (Str ''7''),
                   demo_data ''A'' (Num (Fin 5))] demo_state) = []
   \<and> currentPageNumber
     (onSnapshots [demo_data ''A'' (Num (Fin 3)), demo_data ''A'' (Num (Fin 5)),
                   demo_data ''A'' (Num (Fin 5)), demo_data ''A'' (Str ''7''),
                   demo_data ''A'' (Num (Fin 5))] demo_state) = Some (Fin 5)
   \<and> tl (remdups_adj [3, 3, 5, 5, 7, 5 :: int]) = [5, 7, 5]
   \<and> viewer_set_pages
     (onSnapshots [demo_data ''A'' (Str ''abc''), demo_data ''A'' Undefined] demo_state)
     = [NaN, NaN]"
  using same_deck_notifications_follow_page_changes
    [of "[demo_data ''A'' (Num (Fin 3)), demo_data ''A'' (Num (Fin 5)),
          demo_data ''A'' (Num (Fin 5)), demo_data ''A'' (Str ''7''),
          demo_data ''A'' (Num (Fin 5))]" demo_state 3 "[3, 5, 5, 7, 5]"]
    same_deck_notifications_follow_page_changes
    [of "[demo_data ''A'' (Str ''abc''), demo_data ''A'' Undefined]" demo_state 3 "[]"]
  by (simp add: demo_state_def demo_data_def handler_defs reader_defs parse_simps)

section \<open>Deck loads\<close>

text \<open>
  C8. A notification with a deck other than the local one starts one deck load. When
  that load fails, the failure is logged with \<^verbatim>\<open>console.error\<close> and nothing else is
  done: the current deck, the deck selector and the page-count display are as they were
  before the notification, and no further load is started.
\<close>

theorem failed_deck_load_keeps_deck_state:
  assumes "\<not> deck_loose_eq (currentDeck s) (data_currentDeck d)"
  shows "deck_loads (onSnapshot (Some d) s) = deck_loads s @ [data_currentDeck d]
    \<and> data_currentDeck d \<in> set (pendingLoads (onSnapshot (Some d) s))
    \<and> trace (step (LoadRejected (data_currentDeck d)) (onSnapshot (Some d) s)) =
        trace (onSnapshot (Some d) s) @ [ConsoleError ''Error loading document: '']
    \<and> deck_loads (step (LoadRejected (data_currentDeck d)) (onSnapshot (Some d) s)) =
        deck_loads (onSnapshot (Some d) s)
    \<and> currentDeck (step (LoadRejected (data_currentDeck d)) (onSnapshot (Some d) s)) = currentDeck s
    \<and> deckNameInput_value (step (LoadRejected (data_currentDeck d)) (onSnapshot (Some d) s)) =
        deckNameInput_value s
    \<and> pagesCountSpan_textContent (step (LoadRejected (data_currentDeck d)) (onSnapshot (Some d) s)) =
        pagesCountSpan_textContent s
    \<and> length (pendingLoads (step (LoadRejected (data_currentDeck d)) (onSnapshot (Some d) s))) =
        length (pendingLoads s)
    \<and> updateDeck_catch t = t\<lparr>trace := trace t @ [ConsoleError ''Error loading document: '']\<rparr>"
  using assms by (simp add: handler_defs reader_defs length_remove1)

theorem failed_deck_load_keeps_deck_state_witness:
  "\<not> deck_loose_eq (currentDeck demo_state) (DeckName ''B'')
   \<and> trace (step (LoadRejected (DeckName ''B''))
              (onSnapshot (Some (demo_data ''B'' (Num (Fin 3)))) demo_state))
       = [UpdateDeck (DeckName ''B''), ConsoleError ''Error loading document: '']
   \<and> currentDeck (step (LoadRejected (DeckName ''B''))
              (onSnapshot (Some (demo_data ''B'' (Num (Fin 3)))) demo_state)) = DeckName ''A''
   \<and> pagesCountSpan_textContent (step (LoadRejected (DeckName ''B''))
              (onSnapshot (Some (demo_data ''B'' (Num (Fin 3)))) demo_state)) = Some 10
   \<and> pendingLoads (step (LoadRejected (DeckName ''B''))
              (onSnapshot (Some (demo_data ''B'' (Num (Fin 3)))) demo_state)) = []"
  using failed_deck_load_keeps_deck_state [of demo_state "demo_data ''B'' (Num (Fin 3))" demo_state]
  by (simp add: demo_state_def demo_data_def handler_defs)

text \<open>
  C9. \<^verbatim>\<open>_onSnapshot\<close> applies the result of \<^verbatim>\<open>parseInt\<close> without checking that it is
  an integer. When the notified page number does not parse (a missing or non-numeric
  field), \<open>NaN\<close> differs from every current page, so it becomes the local page number
  and is passed on to the page field and to the viewer's page setter.
\<close>

theorem snapshot_applies_unparsable_page:
  assumes "parseInt (data_currentPageNumber d) = NaN"
  shows "\<not> page_loose_eq (currentPageNumber s) NaN
    \<and> currentPageNumber (onSnapshot (Some d) s) = Some NaN
    \<and> pageNumberInput_value (onSnapshot (Some d) s) = Num NaN
    \<and> viewer_set_pages (onSnapshot (Some d) s) = viewer_set_pages s @ [NaN]"
proof -
  have neq: "\<not> page_loose_eq c NaN" for c
    by (cases "(c, NaN)" rule: page_loose_eq.cases) simp_all
  show ?thesis
    using assms by (simp add: handler_defs reader_defs neq)
qed

theorem snapshot_applies_unparsable_page_witness:
  "parseInt Undefined = NaN \<and> parseInt (Str ''abc'') = NaN
   \<and> currentPageNumber (onSnapshot (Some \<lparr>data_currentDeck = DeckName ''A'', data_currentPageNumber = Undefined\<rparr>) demo_state) = Some NaN
   \<and> pageNumberInput_value (onSnapshot (Some (demo_data ''A'' (Str ''abc''))) demo_state) = Num NaN
   \<and> viewer_set_pages (onSnapshot (Some (demo_data ''A'' (Str ''abc'')))
        (onSnapshot (Some (demo_data ''A'' (Str ''abc''))) demo_state)) = [NaN, NaN]"
  using snapshot_applies_unparsable_page
      [of "\<lparr>data_currentDeck = DeckName ''A'', data_currentPageNumber = Undefined\<rparr>" demo_state]
    snapshot_applies_unparsable_page [of "demo_data ''A'' (Str ''abc'')" demo_state]
    snapshot_applies_unparsable_page [of "demo_data ''A'' (Str ''abc'')"
      "onSnapshot (Some (demo_data ''A'' (Str ''abc''))) demo_state"]
  by (simp add: demo_state_def demo_data_def reader_defs parse_simps)

text \<open>
  C10. A local deck-selector change starts no deck load: the state afterwards is the
  state before with, at most, the stored deck name and the selector's value replaced
  and one remote write recorded. Of all events, only a notification whose deck differs
  from the local one starts a load, so the notification echoing a local deck change
  starts none.
\<close>

theorem local_deck_change_loads_nothing:
  "(onDeckNameInputChange v s = s
      \<or> onDeckNameInputChange v s = s\<lparr>currentDeck := v, deckNameInput_value := v\<rparr>
      \<or> onDeckNameInputChange v s =
          s\<lparr>currentDeck := v, deckNameInput_value := v,
            trace := trace s @ [UpdateDoc (UpdCurrentDeck v)]\<rparr>)
   \<and> deck_loads (step (DeckNameInputChange v) s) = deck_loads s
   \<and> pendingLoads (step (DeckNameInputChange v) s) = pendingLoads s
   \<and> (\<forall>ev. deck_loads (step ev s) \<noteq> deck_loads s \<longrightarrow>
         (\<exists>d. ev = Snapshot (Some d) \<and> \<not> deck_loose_eq (currentDeck s) (data_currentDeck d)))
   \<and> (data_currentDeck e = DeckName n \<longrightarrow>
         deck_loads (onSnapshot (Some e) (step (DeckNameInputChange (DeckName n)) s)) = deck_loads s)"
proof -
  have frame: "onDeckNameInputChange v s = s
      \<or> onDeckNameInputChange v s = s\<lparr>currentDeck := v, deckNameInput_value := v\<rparr>
      \<or> onDeckNameInputChange v s =
          s\<lparr>currentDeck := v, deckNameInput_value := v,
            trace := trace s @ [UpdateDoc (UpdCurrentDeck v)]\<rparr>"
    by (simp add: handler_defs)
  have loads: "deck_loads (step (DeckNameInputChange w) s) = deck_loads s" for w
    by (simp add: handler_defs reader_defs)
  have pend: "pendingLoads (step (DeckNameInputChange v) s) = pendingLoads s"
    by (simp add: handler_defs)
  have only: "\<forall>ev. deck_loads (step ev s) \<noteq> deck_loads s \<longrightarrow>
         (\<exists>d. ev = Snapshot (Some d) \<and> \<not> deck_loose_eq (currentDeck s) (data_currentDeck d))"
    using deck_loads_step by blast
  have cur: "deck_loose_eq (currentDeck (step (DeckNameInputChange (DeckName n)) s)) (DeckName n)"
    by (cases "currentDeck s") (simp_all add: handler_defs)
  have echo: "data_currentDeck e = DeckName n \<longrightarrow>
         deck_loads (onSnapshot (Some e) (step (DeckNameInputChange (DeckName n)) s)) = deck_loads s"
    using cur loads [of "DeckName n"] by (simp add: deck_loads_onSnapshot)
  from frame loads pend only echo show ?thesis by blast
qed

theorem local_deck_change_loads_nothing_witness:
  "step (DeckNameInputChange (DeckName ''B'')) demo_signed_in =
     demo_signed_in\<lparr>currentDeck := DeckName ''B'', deckNameInput_value := DeckName ''B'',
       trace := [UpdateDoc (UpdCurrentDeck (DeckName ''B''))]\<rparr>
   \<and> deck_loads (onSnapshot (Some (demo_data ''B'' (Num (Fin 3))))
        (step (DeckNameInputChange (DeckName ''B'')) demo_signed_in)) = []
   \<and> deck_loads (step (Snapshot (Some (demo_data ''B'' (Num (Fin 3))))) demo_signed_in) = [DeckName ''B'']
   \<and> \<not> deck_loose_eq (currentDeck demo_signed_in) (DeckName ''B'')"
  using local_deck_change_loads_nothing [of "DeckName ''B''" demo_signed_in "demo_data ''B'' (Num (Fin 3))" "''B''"]
  by (simp add: demo_signed_in_def demo_state_def demo_data_def handler_defs reader_defs)

text \<open>
  C6. Signed out, a local deck change leaves the viewer alone: the change of the selector
  to deck \<open>B\<close> replaces the stored deck name and the selector's value and makes no call at
  all, while a notification of deck \<open>B\<close> starts the load and a local page change does
  drive the viewer.
\<close>

theorem unauthenticated_deck_change_leaves_viewer:
  "auth_currentUser demo_state = None
   \<and> step (DeckNameInputChange (DeckName ''B'')) demo_state =
       demo_state\<lparr>currentDeck := DeckName ''B'', deckNameInput_value := DeckName ''B''\<rparr>
   \<and> trace (step (DeckNameInputChange (DeckName ''B'')) demo_state) = []
   \<and> viewer_pagesCount (step (DeckNameInputChange (DeckName ''B'')) demo_state) = 10
   \<and> trace (step (Snapshot (Some (demo_data ''B'' (Num (Fin 3))))) demo_state) = [UpdateDeck (DeckName ''B'')]
   \<and> trace (step (PageNumberInputChange ''7'') demo_state) = [ViewerSetPage (Fin 7)]"
  by (simp add: demo_state_def demo_data_def handler_defs parse_simps)


end
